theory Spec2Isabelle
  imports Complex_Main "HOL-Library.Sublist"
begin

section \<open>Strings and the Python library the matching core calls\<close>

text \<open>
  A Python \<open>str\<close> is a sequence of Unicode code points. The matching core of
  \<open>web_app.py\<close> uses three things of the Python standard library that are tables of the
  Unicode database and are not part of the repository: \<open>str.lower\<close>, the class of
  alphanumeric code points (the regular expression class \<open>\w\<close> is this class plus the
  underscore) and the class of whitespace code points (\<open>\s\<close>, \<open>str.strip\<close> and
  \<open>str.split\<close> all use it). They are the three fields of a \<open>pylib\<close>, which every
  function of the model takes as its first argument.
\<close>

type_synonym cp = nat
type_synonym pystr = "cp list"

record pylib =
  str_lower :: "pystr \<Rightarrow> pystr"
  isalnum :: "cp \<Rightarrow> bool"
  isspace :: "cp \<Rightarrow> bool"

definition ascii :: "string \<Rightarrow> pystr" where
  "ascii s = map of_char s"

text \<open>
  \<open>py_basic\<close> is the instance used to run the model on concrete inputs. It agrees with
  CPython 3 on \<open>str.lower\<close> and \<open>str.isalnum\<close> for the code points below 128 and for
  the Cyrillic range U+0400 to U+045F, and on \<open>str.isspace\<close> for every code point; the
  concrete inputs below use only those code points.
\<close>

definition basic_lower_cp :: "cp \<Rightarrow> cp" where
  "basic_lower_cp c =
     (if 65 \<le> c \<and> c \<le> 90 then c + 32
      else if 1040 \<le> c \<and> c \<le> 1071 then c + 32
      else if 1024 \<le> c \<and> c \<le> 1039 then c + 80
      else c)"

definition basic_isalnum :: "cp \<Rightarrow> bool" where
  "basic_isalnum c \<longleftrightarrow>
     (48 \<le> c \<and> c \<le> 57) \<or> (65 \<le> c \<and> c \<le> 90) \<or> (97 \<le> c \<and> c \<le> 122)
     \<or> (1024 \<le> c \<and> c \<le> 1119)"

definition basic_isspace :: "cp \<Rightarrow> bool" where
  "basic_isspace c \<longleftrightarrow>
     (9 \<le> c \<and> c \<le> 13) \<or> (28 \<le> c \<and> c \<le> 32) \<or> c = 133 \<or> c = 160 \<or> c = 5760
     \<or> (8192 \<le> c \<and> c \<le> 8202) \<or> c = 8232 \<or> c = 8233 \<or> c = 8239 \<or> c = 8287
     \<or> c = 12288"

definition py_basic :: pylib where
  "py_basic = \<lparr>str_lower = map basic_lower_cp, isalnum = basic_isalnum,
                isspace = basic_isspace\<rparr>"

text \<open>
  What the idempotence of the normalizer needs of the library: lower-casing leaves
  alone every string written with the code points of a lower-cased string and the
  space, and the space U+0020 is whitespace. Both hold of CPython.
\<close>

definition lower_stable :: "pylib \<Rightarrow> bool" where
  "lower_stable L \<longleftrightarrow>
     (\<forall>s t. set t \<subseteq> insert 32 (set (str_lower L s)) \<longrightarrow> str_lower L t = t)"

subsection \<open>String primitives\<close>

text \<open>\<open>a in b\<close> on two strings: \<open>a\<close> is a contiguous part of \<open>b\<close>.\<close>

definition py_in :: "pystr \<Rightarrow> pystr \<Rightarrow> bool" where
  "py_in a b = sublist a b"

text \<open>\<open>str.strip()\<close>: whitespace removed at both ends.\<close>

definition py_lstrip :: "pylib \<Rightarrow> pystr \<Rightarrow> pystr" where
  "py_lstrip L s = dropWhile (isspace L) s"

definition py_rstrip :: "pylib \<Rightarrow> pystr \<Rightarrow> pystr" where
  "py_rstrip L s = rev (dropWhile (isspace L) (rev s))"

definition py_strip :: "pylib \<Rightarrow> pystr \<Rightarrow> pystr" where
  "py_strip L s = py_rstrip L (py_lstrip L s)"

text \<open>\<open>str.split()\<close> without argument: the maximal runs of non-whitespace.\<close>

function py_split :: "pylib \<Rightarrow> pystr \<Rightarrow> pystr list" where
  "py_split L [] = []"
| "py_split L (c # cs) =
     (if isspace L c then py_split L cs
      else takeWhile (\<lambda>x. \<not> isspace L x) (c # cs)
           # py_split L (dropWhile (\<lambda>x. \<not> isspace L x) cs))"
  by pat_completeness auto
termination
  by (relation "measure (\<lambda>(L, s). length s)")
     (auto simp: length_dropWhile_le less_Suc_eq_le)

text \<open>The regular expression class \<open>\w\<close> on a \<open>str\<close> pattern.\<close>

definition is_word :: "pylib \<Rightarrow> cp \<Rightarrow> bool" where
  "is_word L c \<longleftrightarrow> isalnum L c \<or> c = 95"

text \<open>\<open>re.sub(r'[^\w\s]', '', text)\<close>.\<close>

definition strip_punct :: "pylib \<Rightarrow> pystr \<Rightarrow> pystr" where
  "strip_punct L s = filter (\<lambda>c. is_word L c \<or> isspace L c) s"

text \<open>\<open>re.sub(r'\s+', ' ', text)\<close>: every maximal run of whitespace becomes one space.\<close>

function collapse_ws :: "pylib \<Rightarrow> pystr \<Rightarrow> pystr" where
  "collapse_ws L [] = []"
| "collapse_ws L (c # cs) =
     (if isspace L c then 32 # collapse_ws L (dropWhile (isspace L) cs)
      else c # collapse_ws L cs)"
  by pat_completeness auto
termination
  by (relation "measure (\<lambda>(L, s). length s)")
     (auto simp: length_dropWhile_le less_Suc_eq_le)

section \<open>Text normalizer\<close>

text \<open>
  \<open>normalize_text\<close>, lines 356 to 371. The argument is \<open>None\<close> or a string; \<open>not text\<close>
  holds of \<open>None\<close> and of the empty string.
\<close>

fun normalize_text :: "pylib \<Rightarrow> pystr option \<Rightarrow> pystr" where
  "normalize_text L None = []"
| "normalize_text L (Some text) =
     (if text = [] then []
      else py_strip L (collapse_ws L (strip_punct L (str_lower L text))))"

text \<open>
  The shape of a normalized string: whitespace occurs only as single spaces between
  other code points.
\<close>

fun single_spaced :: "pylib \<Rightarrow> pystr \<Rightarrow> bool" where
  "single_spaced L [] = True"
| "single_spaced L [c] = (if isspace L c then c = 32 else True)"
| "single_spaced L (c # d # r) =
     ((if isspace L c then c = 32 \<and> \<not> isspace L d else True) \<and> single_spaced L (d # r))"

section \<open>Knowledge matcher\<close>

text \<open>
  \<open>KNOWLEDGE_BASE\<close> is a \<open>dict\<close> from question to answer; its iteration order is the
  order of the list. \<open>question in KNOWLEDGE_BASE\<close> and \<open>KNOWLEDGE_BASE[question]\<close> are
  \<open>map_of\<close>.
\<close>

type_synonym kbase = "(pystr \<times> pystr) list"

text \<open>Lines 382 to 384: the first key whose normalized form is the normalized question.\<close>

fun tier_normalized :: "pylib \<Rightarrow> pystr \<Rightarrow> kbase \<Rightarrow> pystr option" where
  "tier_normalized L nq [] = None"
| "tier_normalized L nq ((key, val) # rest) =
     (if normalize_text L (Some key) = nq then Some val else tier_normalized L nq rest)"

text \<open>Lines 387 to 390: the first key that contains the question or is contained in it.\<close>

fun tier_substring :: "pylib \<Rightarrow> pystr \<Rightarrow> kbase \<Rightarrow> pystr option" where
  "tier_substring L nq [] = None"
| "tier_substring L nq ((key, val) # rest) =
     (let normalized_key = normalize_text L (Some key) in
      if py_in normalized_key nq \<or> py_in nq normalized_key then Some val
      else tier_substring L nq rest)"

text \<open>
  Line 407, \<open>score >= max(1, len(question_words) * 0.5)\<close>: the product is a float,
  exact for every length a set can have, so the comparison is the one of the rationals.
\<close>

definition threshold_ok :: "nat \<Rightarrow> nat \<Rightarrow> bool" where
  "threshold_ok score n \<longleftrightarrow> max (1::rat) (of_nat n * (1 / 2)) \<le> of_nat score"

text \<open>Lines 399 to 404: the number of words a key shares with the question.\<close>

definition key_score :: "pylib \<Rightarrow> pystr set \<Rightarrow> pystr \<Rightarrow> nat" where
  "key_score L question_words key =
     (let normalized_key = normalize_text L (Some key);
          key_words = set (py_split L normalized_key);
          common_words = question_words \<inter> key_words
      in card common_words)"

text \<open>
  Lines 398 to 409: the loop over the base, with its state \<open>(best_match, best_score)\<close>.
\<close>

fun overlap_loop ::
  "pylib \<Rightarrow> pystr set \<Rightarrow> kbase \<Rightarrow> pystr option \<times> nat \<Rightarrow> pystr option \<times> nat" where
  "overlap_loop L qw [] st = st"
| "overlap_loop L qw ((key, val) # rest) (best_match, best_score) =
     (let score = key_score L qw key in
      if score > best_score \<and> threshold_ok score (card qw)
      then overlap_loop L qw rest (Some val, score)
      else overlap_loop L qw rest (best_match, best_score))"

text \<open>Truthiness of a value that is \<open>None\<close> or a string.\<close>

fun truthy :: "pystr option \<Rightarrow> bool" where
  "truthy None = False"
| "truthy (Some s) = (s \<noteq> [])"

text \<open>Lines 393 to 412: the word-overlap tier; \<open>None\<close> when it returns nothing.\<close>

definition word_overlap_tier :: "pylib \<Rightarrow> kbase \<Rightarrow> pystr \<Rightarrow> pystr option" where
  "word_overlap_tier L KB normalized_question =
     (let question_words = set (py_split L normalized_question) in
      if card question_words > 1 then
        (let best_match = fst (overlap_loop L question_words KB (None, 0)) in
         if truthy best_match then best_match else None)
      else None)"

text \<open>\<open>find_in_knowledge_base\<close>, lines 373 to 414.\<close>

definition find_in_knowledge_base :: "pylib \<Rightarrow> kbase \<Rightarrow> pystr \<Rightarrow> pystr option" where
  "find_in_knowledge_base L KB question =
     (let normalized_question = normalize_text L (Some question) in
      case map_of KB question of
        Some val \<Rightarrow> Some val
      | None \<Rightarrow>
         (case tier_normalized L normalized_question KB of
            Some val \<Rightarrow> Some val
          | None \<Rightarrow>
             (case tier_substring L normalized_question KB of
                Some val \<Rightarrow> Some val
              | None \<Rightarrow> word_overlap_tier L KB normalized_question)))"

section \<open>Topic resolver\<close>

text \<open>
  A menu item carries its trigger question, read with \<open>item["question"]\<close>, and its
  suggestion topic, read with \<open>item.get("suggestion_topic")\<close>, which is \<open>None\<close> when
  the item has none. A suggestion carries its label, its trigger question and its canned
  answer. \<open>suggestionMap\<close> is a \<open>dict\<close> from topic name to the list of suggestions.
\<close>

record menu_item =
  mi_question :: pystr
  mi_suggestion_topic :: "pystr option"

record suggestion =
  sg_text :: pystr
  sg_question :: pystr
  sg_answer :: pystr

type_synonym suggestion_map = "(pystr \<times> suggestion list) list"

text \<open>\<open>suggestionMap.get(topic, [])\<close>.\<close>

definition dict_get :: "suggestion_map \<Rightarrow> pystr \<Rightarrow> suggestion list" where
  "dict_get m k = (case map_of m k of None \<Rightarrow> [] | Some v \<Rightarrow> v)"

text \<open>Lines 692 to 699 of \<open>chat\<close>: the loop over the menu, left at the first match.\<close>

fun find_menu_topic :: "pylib \<Rightarrow> menu_item list \<Rightarrow> pystr \<Rightarrow> pystr option" where
  "find_menu_topic L [] question = None"
| "find_menu_topic L (item # rest) question =
     (if normalize_text L (Some (mi_question item)) = normalize_text L (Some question)
      then mi_suggestion_topic item
      else find_menu_topic L rest question)"

text \<open>Lines 725 to 732 of \<open>chat\<close>: the answer of the first suggestion that matches.\<close>

fun find_suggestion_answer :: "pylib \<Rightarrow> suggestion list \<Rightarrow> pystr \<Rightarrow> pystr option" where
  "find_suggestion_answer L [] question = None"
| "find_suggestion_answer L (s # rest) question =
     (if normalize_text L (Some (sg_question s)) = normalize_text L (Some question)
      then Some (sg_answer s)
      else find_suggestion_answer L rest question)"

text \<open>Lines 704 and 721: label and question of each suggestion, the answer left out.\<close>

definition public_suggestions :: "suggestion list \<Rightarrow> (pystr \<times> pystr) list" where
  "public_suggestions l = map (\<lambda>s. (sg_text s, sg_question s)) l"

text \<open>
  \<open>get_suggestions_by_topic\<close>, lines 838 to 850: the route that serves the suggestions
  of a topic; an unknown or empty topic falls back to \<open>"default"\<close>.
\<close>

definition get_suggestions_by_topic :: "pylib \<Rightarrow> suggestion_map \<Rightarrow> pystr \<Rightarrow> suggestion list" where
  "get_suggestions_by_topic L suggestionMap topic =
     (let suggestions = dict_get suggestionMap (str_lower L topic) in
      if suggestions = [] then dict_get suggestionMap (ascii ''default'') else suggestions)"

section \<open>External generator\<close>

text \<open>
  An exception is the text \<open>str(e)\<close> gives. One HTTP attempt of \<open>call_yandex_gpt\<close>
  either receives a reply, with its status code and what
  \<open>response.json()["result"]["alternatives"][0]["message"]["text"]\<close> yields on its body
  (a text, or an exception when the body has not that shape), or raises a
  \<open>RequestException\<close>, or raises another exception.
\<close>

datatype exn = Exn pystr

datatype attempt =
    Replied nat "exn + pystr"
  | RequestException
  | OtherException exn

definition msg_ask_question :: pystr where
  "msg_ask_question = [1055, 1086, 1078, 1072, 1083, 1091, 1081, 1089, 1090, 1072, 44, 32,
     1079, 1072, 1076, 1072, 1081, 1090, 1077, 32, 1074, 1086, 1087, 1088, 1086, 1089, 46]"

definition msg_chat_failed :: pystr where
  "msg_chat_failed = [10060, 32, 1055, 1088, 1086, 1080, 1079, 1086, 1096, 1083, 1072, 32,
     1086, 1096, 1080, 1073, 1082, 1072]"

definition msg_auth_error :: pystr where
  "msg_auth_error = [10060, 32, 1054, 1096, 1080, 1073, 1082, 1072, 32, 1072, 1074, 1090,
     1086, 1088, 1080, 1079, 1072, 1094, 1080, 1080, 46, 32, 1055, 1088, 1086, 1074, 1077,
     1088, 1100, 1090, 1077, 32, 65, 80, 73, 45, 1082, 1083, 1102, 1095, 46]"

definition msg_param_error :: pystr where
  "msg_param_error = [10060, 32, 1054, 1096, 1080, 1073, 1082, 1072, 32, 1087, 1072, 1088,
     1072, 1084, 1077, 1090, 1088, 1086, 1074, 46, 32, 1055, 1088, 1086, 1074, 1077, 1088,
     1100, 1090, 1077, 32, 102, 111, 108, 100, 101, 114, 95, 105, 100, 46]"

definition msg_no_answer :: pystr where
  "msg_no_answer = [10060, 32, 1053, 1077, 32, 1091, 1076, 1072, 1083, 1086, 1089, 1100, 32,
     1087, 1086, 1083, 1091, 1095, 1080, 1090, 1100, 32, 1086, 1090, 1074, 1077, 1090, 46,
     32, 1055, 1086, 1087, 1088, 1086, 1073, 1091, 1081, 1090, 1077, 32, 1087, 1086, 1079,
     1078, 1077, 46]"

text \<open>
  Lines 1524 to 1538: the attempts still to make, in order. A reply with status 200
  returns the text of the body or lets the exception of a malformed body escape; 401
  and 400 return their message; any other status and a \<open>RequestException\<close> go on to
  the next attempt; another exception escapes.
\<close>

fun gpt_attempts :: "attempt list \<Rightarrow> exn + pystr" where
  "gpt_attempts [] = Inr msg_no_answer"
| "gpt_attempts (Replied status body # rest) =
     (if status = 200 then body
      else if status = 401 then Inr msg_auth_error
      else if status = 400 then Inr msg_param_error
      else gpt_attempts rest)"
| "gpt_attempts (RequestException # rest) = gpt_attempts rest"
| "gpt_attempts (OtherException e # rest) = Inl e"

text \<open>\<open>call_yandex_gpt\<close>: \<open>net n\<close> is what attempt \<open>n\<close> of \<open>range(3)\<close> meets.\<close>

definition call_yandex_gpt :: "(nat \<Rightarrow> attempt) \<Rightarrow> exn + pystr" where
  "call_yandex_gpt net = gpt_attempts (map net [0, 1, 2])"

section \<open>Conversation router\<close>

text \<open>
  The reply of \<open>/chat\<close> and the records handed to \<open>log_interaction\<close> (question,
  answer, source), which catches its own failures.
\<close>

record chat_reply =
  cr_response :: pystr
  cr_source :: pystr
  cr_suggestions :: "(pystr \<times> pystr) list"

type_synonym log_entry = "pystr \<times> pystr \<times> pystr"

text \<open>
  Lines 687 to 756, the body of the \<open>try\<close> of \<open>chat\<close> after the question is read:
  \<open>Inl\<close> is an exception that leaves the body.
\<close>

definition chat_body ::
  "pylib \<Rightarrow> menu_item list \<Rightarrow> suggestion_map \<Rightarrow> kbase \<Rightarrow> (nat \<Rightarrow> attempt) \<Rightarrow> pystr
     \<Rightarrow> exn + chat_reply \<times> log_entry list" where
  "chat_body L menu_items suggestionMap KB net question =
     (if question = [] then
        Inr (\<lparr>cr_response = msg_ask_question, cr_source = ascii ''error'', cr_suggestions = []\<rparr>, [])
      else
        let menu_topic = find_menu_topic L menu_items question in
        if \<not> truthy menu_topic then
          (let suggestions = public_suggestions (dict_get suggestionMap (ascii ''default''));
               found = find_in_knowledge_base L KB question
           in case (if truthy found then Inr (the found) else call_yandex_gpt net) of
                Inl e \<Rightarrow> Inl e
              | Inr response \<Rightarrow>
                  (let source = (if truthy found then ascii ''knowledge_base''
                                 else ascii ''yandex_gpt'')
                   in Inr (\<lparr>cr_response = response, cr_source = source,
                             cr_suggestions = suggestions\<rparr>,
                           [(question, response, source)])))
        else
          (let topic_suggestions = dict_get suggestionMap (the menu_topic);
               suggestions = public_suggestions topic_suggestions;
               st1 = (find_suggestion_answer L topic_suggestions question,
                      ascii ''suggestion_map'');
               st2 = (if \<not> truthy (fst st1)
                      then (find_in_knowledge_base L KB question, ascii ''knowledge_base'')
                      else st1)
           in case (if \<not> truthy (fst st2)
                    then (case call_yandex_gpt net of
                            Inl e \<Rightarrow> Inl e
                          | Inr r \<Rightarrow> Inr (r, ascii ''yandex_gpt''))
                    else Inr (the (fst st2), snd st2)) of
                Inl e \<Rightarrow> Inl e
              | Inr (response, source) \<Rightarrow>
                  Inr (\<lparr>cr_response = response, cr_source = source, cr_suggestions = suggestions\<rparr>,
                       [(question, response, source)])))"

text \<open>
  \<open>chat\<close>, lines 678 to 762: the message is stripped, the body runs, and the handler
  of \<open>except Exception\<close> turns an exception into the reply of source \<open>"error"\<close>.
\<close>

definition chat ::
  "pylib \<Rightarrow> menu_item list \<Rightarrow> suggestion_map \<Rightarrow> kbase \<Rightarrow> (nat \<Rightarrow> attempt) \<Rightarrow> pystr
     \<Rightarrow> chat_reply \<times> log_entry list" where
  "chat L menu_items suggestionMap KB net message =
     (let question = py_strip L message in
      case chat_body L menu_items suggestionMap KB net question of
        Inr r \<Rightarrow> r
      | Inl (Exn e) \<Rightarrow>
          (\<lparr>cr_response = msg_chat_failed, cr_source = ascii ''error'', cr_suggestions = []\<rparr>,
           [(question, msg_chat_failed @ [58, 32] @ e, ascii ''error'')]))"

section \<open>Properties of the normalizer\<close>

lemma single_spaced_Cons:
  "single_spaced L (c # s) \<longleftrightarrow>
     (isspace L c \<longrightarrow> c = 32 \<and> (s \<noteq> [] \<longrightarrow> \<not> isspace L (hd s))) \<and> single_spaced L s"
  by (cases s) auto

lemma collapse_ws_hd:
  "s \<noteq> [] \<Longrightarrow> \<not> isspace L (hd s) \<Longrightarrow> collapse_ws L s \<noteq> [] \<and> hd (collapse_ws L s) = hd s"
  by (cases s) auto

lemma collapse_ws_Nil_iff: "collapse_ws L s = [] \<longleftrightarrow> s = []"
  by (cases s) auto

lemma collapse_ws_single_spaced: "single_spaced L (collapse_ws L s)"
proof (induction L s rule: collapse_ws.induct)
  case (1 L)
  show ?case by simp
next
  case (2 L c cs)
  show ?case
  proof (cases "isspace L c")
    case True
    let ?d = "dropWhile (isspace L) cs"
    have tl: "single_spaced L (collapse_ws L ?d)" using 2(1) True by simp
    have "collapse_ws L ?d \<noteq> [] \<Longrightarrow> \<not> isspace L (hd (collapse_ws L ?d))"
    proof -
      assume "collapse_ws L ?d \<noteq> []"
      then have ne: "?d \<noteq> []" by (simp add: collapse_ws_Nil_iff)
      then have "\<not> isspace L (hd ?d)" by (rule hd_dropWhile)
      with ne show ?thesis by (simp add: collapse_ws_hd)
    qed
    with tl True show ?thesis by (simp add: single_spaced_Cons)
  next
    case False
    with 2(2) show ?thesis by (simp add: single_spaced_Cons)
  qed
qed

lemma dropWhile_hd_id: "(s \<noteq> [] \<longrightarrow> \<not> P (hd s)) \<Longrightarrow> dropWhile P s = s"
  by (cases s) auto

lemma collapse_ws_id: "single_spaced L s \<Longrightarrow> collapse_ws L s = s"
proof (induction L s rule: collapse_ws.induct)
  case (1 L)
  show ?case by simp
next
  case (2 L c cs)
  from 2(3) have c: "isspace L c \<longrightarrow> c = 32 \<and> (cs \<noteq> [] \<longrightarrow> \<not> isspace L (hd cs))"
    and cs: "single_spaced L cs" by (simp_all add: single_spaced_Cons)
  show ?case
  proof (cases "isspace L c")
    case True
    with c have d: "dropWhile (isspace L) cs = cs" by (simp add: dropWhile_hd_id)
    with 2(1) True cs have "collapse_ws L cs = cs" by simp
    with True c d show ?thesis by simp
  next
    case False
    with 2(2) cs show ?thesis by simp
  qed
qed

lemma single_spaced_append_right: "single_spaced L (xs @ ys) \<Longrightarrow> single_spaced L ys"
  by (induction xs) (auto simp: single_spaced_Cons)

lemma single_spaced_append_left: "single_spaced L (xs @ ys) \<Longrightarrow> single_spaced L xs"
proof (induction xs)
  case Nil
  show ?case by simp
next
  case (Cons x xs)
  then show ?case by (cases xs) (auto simp: single_spaced_Cons)
qed

lemma py_rstrip_decomp: "py_rstrip L s @ rev (takeWhile (isspace L) (rev s)) = s"
proof -
  have "rev (takeWhile (isspace L) (rev s) @ dropWhile (isspace L) (rev s)) = s"
    by simp
  then show ?thesis unfolding py_rstrip_def by (simp only: rev_append)
qed

lemma py_lstrip_decomp: "takeWhile (isspace L) s @ py_lstrip L s = s"
  by (simp add: py_lstrip_def)

lemma single_spaced_strip: "single_spaced L s \<Longrightarrow> single_spaced L (py_strip L s)"
proof -
  assume a: "single_spaced L s"
  have "single_spaced L (py_lstrip L s)"
    using a single_spaced_append_right [of L "takeWhile (isspace L) s" "py_lstrip L s"]
    by (simp add: py_lstrip_decomp)
  then show ?thesis
    using single_spaced_append_left
      [of L "py_rstrip L (py_lstrip L s)" "rev (takeWhile (isspace L) (rev (py_lstrip L s)))"]
    by (simp add: py_rstrip_decomp py_strip_def)
qed

lemma py_rstrip_last: "py_rstrip L s \<noteq> [] \<Longrightarrow> \<not> isspace L (last (py_rstrip L s))"
  unfolding py_rstrip_def by (simp add: last_rev hd_dropWhile)

lemma py_rstrip_hd: "py_rstrip L s \<noteq> [] \<Longrightarrow> hd (py_rstrip L s) = hd s"
  using py_rstrip_decomp [of L s] by (metis hd_append2)

lemma py_strip_hd: "py_strip L s \<noteq> [] \<Longrightarrow> \<not> isspace L (hd (py_strip L s))"
proof -
  assume ne: "py_strip L s \<noteq> []"
  then have "py_lstrip L s \<noteq> []" by (auto simp: py_strip_def py_rstrip_def)
  then have "\<not> isspace L (hd (py_lstrip L s))" unfolding py_lstrip_def by (rule hd_dropWhile)
  with ne show ?thesis by (simp add: py_strip_def py_rstrip_hd)
qed

lemma py_strip_last: "py_strip L s \<noteq> [] \<Longrightarrow> \<not> isspace L (last (py_strip L s))"
  by (simp add: py_strip_def py_rstrip_last)

lemma py_strip_id:
  "(s \<noteq> [] \<longrightarrow> \<not> isspace L (hd s) \<and> \<not> isspace L (last s)) \<Longrightarrow> py_strip L s = s"
proof -
  assume a: "s \<noteq> [] \<longrightarrow> \<not> isspace L (hd s) \<and> \<not> isspace L (last s)"
  then have l: "py_lstrip L s = s" by (simp add: py_lstrip_def dropWhile_hd_id)
  from a have "rev s \<noteq> [] \<longrightarrow> \<not> isspace L (hd (rev s))" by (simp add: hd_rev)
  then have "dropWhile (isspace L) (rev s) = rev s" by (rule dropWhile_hd_id)
  then show ?thesis by (simp add: py_strip_def py_rstrip_def l)
qed

lemma set_dropWhile_subset: "set (dropWhile P xs) \<subseteq> set xs"
  by (auto dest: set_dropWhileD)

lemma set_py_strip: "set (py_strip L s) \<subseteq> set s"
proof -
  have "set (py_strip L s) \<subseteq> set (py_lstrip L s)"
    using set_dropWhile_subset [of "isspace L" "rev (py_lstrip L s)"]
    by (simp add: py_strip_def py_rstrip_def)
  also have "\<dots> \<subseteq> set s"
    unfolding py_lstrip_def by (rule set_dropWhile_subset)
  finally show ?thesis .
qed

lemma set_collapse_ws: "set (collapse_ws L s) \<subseteq> insert 32 (set s)"
  by (induction L s rule: collapse_ws.induct) (auto dest: set_dropWhileD)

lemma normalize_text_chars:
  assumes "c \<in> set (normalize_text L x)"
  shows "c = 32 \<or> ((is_word L c \<or> isspace L c) \<and> (\<exists>t. x = Some t \<and> c \<in> set (str_lower L t)))"
proof (cases x)
  case None
  with assms show ?thesis by simp
next
  case (Some t)
  with assms have t: "t \<noteq> []" and
    c: "c \<in> set (py_strip L (collapse_ws L (strip_punct L (str_lower L t))))"
    by (auto split: if_splits)
  from c have "c \<in> insert 32 (set (strip_punct L (str_lower L t)))"
    using set_py_strip set_collapse_ws by blast
  with Some show ?thesis by (auto simp: strip_punct_def)
qed

lemma normalize_text_single_spaced: "single_spaced L (normalize_text L x)"
  by (cases x) (auto simp: single_spaced_strip collapse_ws_single_spaced)

lemma normalize_text_ends:
  "normalize_text L x \<noteq> [] \<Longrightarrow>
     \<not> isspace L (hd (normalize_text L x)) \<and> \<not> isspace L (last (normalize_text L x))"
  by (cases x) (auto simp: py_strip_hd py_strip_last split: if_splits)

lemma basic_lower_cp_idem: "basic_lower_cp (basic_lower_cp c) = basic_lower_cp c"
  by (simp add: basic_lower_cp_def)

lemma lower_stable_py_basic: "lower_stable py_basic"
proof -
  have "map basic_lower_cp t = t" if "set t \<subseteq> insert 32 (set (map basic_lower_cp s))" for s t
  proof -
    have "basic_lower_cp c = c" if "c \<in> set t" for c
    proof -
      from that \<open>set t \<subseteq> _\<close> have "c = 32 \<or> (\<exists>d. c = basic_lower_cp d)" by auto
      then show ?thesis by (auto simp: basic_lower_cp_idem) (simp add: basic_lower_cp_def)
    qed
    then show ?thesis by (simp add: map_idI)
  qed
  then show ?thesis by (simp add: lower_stable_def py_basic_def)
qed

lemma isspace_py_basic_32: "isspace py_basic 32"
  by (simp add: py_basic_def basic_isspace_def)

lemma normalize_text_twice:
  assumes "lower_stable L" and "isspace L 32"
  shows "normalize_text L (Some (normalize_text L x)) = normalize_text L x"
proof (cases "normalize_text L x = []")
  case True
  then show ?thesis by simp
next
  case False
  let ?y = "normalize_text L x"
  obtain t where x: "x = Some t" using False by (cases x) auto
  have "set ?y \<subseteq> insert 32 (set (str_lower L t))"
  proof (rule subsetI)
    fix c assume c: "c \<in> set ?y"
    from normalize_text_chars [OF c] x show "c \<in> insert 32 (set (str_lower L t))"
      by auto
  qed
  with assms(1) have low: "str_lower L ?y = ?y" unfolding lower_stable_def by blast
  have "\<forall>c\<in>set ?y. is_word L c \<or> isspace L c"
  proof (rule ballI)
    fix c assume c: "c \<in> set ?y"
    from normalize_text_chars [OF c] assms(2) show "is_word L c \<or> isspace L c"
      by auto
  qed
  then have punct: "strip_punct L ?y = ?y" unfolding strip_punct_def by simp
  have coll: "collapse_ws L ?y = ?y"
    by (rule collapse_ws_id) (rule normalize_text_single_spaced)
  have str: "py_strip L ?y = ?y"
    by (rule py_strip_id) (simp add: normalize_text_ends)
  from False low punct coll str show ?thesis by simp
qed

text \<open>
  Lower-casing is all the normalizer does with letter case: two non-empty strings with
  the same lower-cased form have the same normalized form.
\<close>

lemma normalize_text_lower_cong:
  "str_lower L a = str_lower L b \<Longrightarrow> (a = [] \<longleftrightarrow> b = []) \<Longrightarrow>
     normalize_text L (Some a) = normalize_text L (Some b)"
  by simp

text \<open>
  Claim C3. \<open>normalize_text\<close> lower-cases its input, removes every code point that is
  not a letter, a digit or whitespace, collapses every run of whitespace to one space
  and trims both ends. The comment of line 364 says the same (only letters, digits and
  spaces are kept), but the class \<open>\w\<close> of line 365 holds the underscore too: on
  \<open>a_b\<close> the underscore, which is no letter, digit or whitespace, is kept.
\<close>

theorem normalize_text_keeps_underscore:
  "normalize_text py_basic (Some (ascii ''a_b'')) = ascii ''a_b''
   \<and> \<not> basic_isalnum 95 \<and> \<not> basic_isspace 95"
  by code_simp

text \<open>
  Claim C8. \<open>normalize_text\<close> is idempotent: normalizing a normalized string changes
  nothing, for every input (\<open>None\<close> included) and every library whose lower-casing is
  stable and for which the space is whitespace; and \<open>Hello!!\<close> and \<open>hello\<close> have the
  same normalized form. The function being a HOL function, it is pure and deterministic.
\<close>

theorem normalize_text_idempotent:
  "(lower_stable L \<and> isspace L 32 \<longrightarrow>
      normalize_text L (Some (normalize_text L x)) = normalize_text L x)
   \<and> normalize_text py_basic (Some (ascii ''Hello!!''))
       = normalize_text py_basic (Some (ascii ''hello''))"
proof
  show "lower_stable L \<and> isspace L 32 \<longrightarrow>
      normalize_text L (Some (normalize_text L x)) = normalize_text L x"
    using normalize_text_twice by blast
next
  show "normalize_text py_basic (Some (ascii ''Hello!!''))
       = normalize_text py_basic (Some (ascii ''hello''))"
    by code_simp
qed

theorem normalize_text_idempotent_witness:
  "lower_stable py_basic \<and> isspace py_basic 32
   \<and> normalize_text py_basic (Some (ascii ''  Hello,   World!  '')) = ascii ''hello world''
   \<and> normalize_text py_basic (Some (ascii ''hello world'')) = ascii ''hello world''"
proof -
  have v: "normalize_text py_basic (Some (ascii ''  Hello,   World!  ''))
             = ascii ''hello world''"
    by code_simp
  have "normalize_text py_basic
          (Some (normalize_text py_basic (Some (ascii ''  Hello,   World!  ''))))
        = normalize_text py_basic (Some (ascii ''  Hello,   World!  ''))"
    using normalize_text_idempotent [of py_basic "Some (ascii ''  Hello,   World!  '')"]
      lower_stable_py_basic isspace_py_basic_32
    by blast
  with v show ?thesis
    using lower_stable_py_basic isspace_py_basic_32 by simp
qed

end
